theory Spec2Isabelle
  imports Complex_Main
begin

section \<open>The files the server works on\<close>

text \<open>
  \<^verbatim>\<open>config.py\<close> fixes two locations under \<^verbatim>\<open>BASE_DIR\<close>: the active database
  \<^verbatim>\<open>DB_PATH = BASE_DIR / 'assets/GeoLite2-City.mmdb'\<close> and, in \<^verbatim>\<open>main.py\<close>,
  the archive \<^verbatim>\<open>BASE_DIR / 'assets/GeoLite2-City.tar.gz'\<close>.  The refresh extracts
  the database member to \<^verbatim>\<open>os.path.join('/tmp', mmdb_file.name)\<close>.

  A path identifies a file, on a file system where names differ when their
  letters do: it is the list of the components that are left when
  the empty, \<^verbatim>\<open>.\<close> and \<^verbatim>\<open>..\<close> components of a path name have been resolved, counted
  from \<^verbatim>\<open>BASE_DIR\<close> for a file below it, from \<^verbatim>\<open>/tmp\<close> for a file below that, and
  from the root otherwise.  Two names of one file give one path.

  The disk maps a path to the contents of the regular file there.  A file holds
  either plain bytes or a gzip-compressed tar container, which is represented by
  the list of its members in archive order.  Directories are not on the map, the
  two canonical paths are not directories, and the disk an attempt starts from
  has no links: a file has one path.

  A member of an archive is a regular file with its data, a directory, or a link
  or special file.  Line 72 selects a member by its name alone.
\<close>

datatype path = InBase "string list" | InTmp "string list" | Outside "string list"

datatype tarinfo =
    TarInfo (name: string) (payload: string)
  | TarDir (name: string)
  | TarLink (name: string)

datatype blob = Raw string | TarGz "tarinfo list"

type_synonym fs = "path \<Rightarrow> blob option"

fun split_slash :: "string \<Rightarrow> string list" where
  "split_slash [] = [[]]"
| "split_slash (c # cs) =
     (if c = CHR ''/'' then [] # split_slash cs
      else (case split_slash cs of [] \<Rightarrow> [[c]] | part # parts \<Rightarrow> (c # part) # parts))"

text \<open>
  How the system resolves a path name, one component after the other: an empty
  component and \<^verbatim>\<open>.\<close> stay where they are, \<^verbatim>\<open>..\<close> goes up (and stays at the root),
  any other component goes down.
\<close>

definition walk :: "string list \<Rightarrow> string \<Rightarrow> string list" where
  "walk here c =
     (if c = [] \<or> c = ''.'' then here
      else if c = ''..'' then butlast here
      else here @ [c])"

definition resolve :: "string \<Rightarrow> string list" where
  "resolve s = foldl walk [] (split_slash s)"

definition locate :: "string list \<Rightarrow> string list \<Rightarrow> path" where
  "locate base file =
     (if take (length base) file = base then InBase (drop (length base) file)
      else if take 1 file = [''tmp''] then InTmp (drop 1 file)
      else Outside file)"

definition BASE_DIR :: "string \<Rightarrow> path" where
  "BASE_DIR rel = InBase (resolve rel)"

definition DB_PATH :: path where
  "DB_PATH = BASE_DIR ''assets/GeoLite2-City.mmdb''"

definition db_archive :: path where
  "db_archive = BASE_DIR ''assets/GeoLite2-City.tar.gz''"


definition os_path_exists :: "fs \<Rightarrow> path \<Rightarrow> bool" where
  "os_path_exists disk p = (disk p \<noteq> None)"

definition os_path_join :: "string \<Rightarrow> string \<Rightarrow> string" where
  "os_path_join a b =
     (if b \<noteq> [] \<and> hd b = CHR ''/'' then b
      else if a = [] \<or> last a = CHR ''/'' then a @ b
      else a @ ''/'' @ b)"

section \<open>Exceptions and the log\<close>

text \<open>
  Every \<^verbatim>\<open>raise\<close> of the source is a value.  \<^verbatim>\<open>detail=str(e)\<close> is kept as
  \<open>Str e\<close>, the text of the wrapped exception, so that nothing depends on how the
  web framework prints an exception.
\<close>

datatype detail = Text string | Str exn
  and exn =
    HTTPException nat detail
  | ValueError string
  | ClientError
  | OSError
  | ReadError
  | SameFileError
  | ReaderError string

datatype log_entry = LogInfo string | LogError exn

section \<open>The environment of one refresh attempt\<close>

text \<open>
  A refresh attempt depends on the configured license key, on what the provider
  answers, on where \<^verbatim>\<open>BASE_DIR\<close> is, and on whether the network and the file system
  do what they are asked.
  The body of \<^verbatim>\<open>download_database\<close> sits in \<^verbatim>\<open>try: ... except Exception\<close>: a
  step that raises ends the attempt.  Whether a step raises depends on the machine
  (the network, permissions, free space, a file or a directory in the way);
  \<open>fault\<close> says which of these steps raise in this attempt: the request, the
  reading of the response body, the opening of a file for writing (with the making
  of its directories), the writing of its contents, the copying of the file's
  metadata after its data, the removal of a file.  Opening a file for writing
  (\<^verbatim>\<open>'wb'\<close>) truncates it before any byte is written, so writing a file is two
  steps.  Reading a regular file that is on the disk is taken to succeed.

  \<open>base_dir\<close> is the resolved absolute path of \<^verbatim>\<open>BASE_DIR\<close>.  \<open>copied\<close> is the number
  of bytes that a copy has written when it is interrupted, and \<open>torn\<close> is what an
  interrupted copy leaves of an archive, whose bytes the model does not have.
  \<open>link_effect\<close> is what extracting a link or special member does, which depends
  on what the link names: the extraction raises; or it leaves something that
  \<^verbatim>\<open>copy2\<close> refuses to copy (a link to nothing, to a directory or to the database
  file itself, a named pipe), with what the path then shows and whether the
  refusal is \<^verbatim>\<open>SameFileError\<close>; or it leaves a link to a regular file with the given
  contents, other than the database file.
\<close>

datatype io_point =
    SessionGet
  | ReadBody
  | OpenWrite path
  | WriteData path
  | CopyStat
  | Unlink path

datatype link_effect = LinkFails | LinkRefused "blob option" bool | LinkReadable blob

record refresh_env =
  MAXMIND_LICENSE_KEY :: "string option"
  response_status :: nat
  response_body :: blob
  fault :: "io_point \<Rightarrow> bool"
  base_dir :: "string list"
  copied :: nat
  torn :: string
  link_effect :: link_effect

text \<open>
  An outcome is the exception a step raised, if any, and the file-system states the
  step produced, oldest first.  A step that changes nothing produces no state.
  The states are those at the ends of the steps: while a copy runs, the file it
  fills holds a growing prefix of the data.
\<close>

type_synonym outcome = "exn option \<times> fs list"

type_synonym io = "fs \<Rightarrow> outcome"

definition and_then :: "io \<Rightarrow> io \<Rightarrow> io" where
  "and_then a b disk =
     (case a disk of
        (Some e, tr) \<Rightarrow> (Some e, tr)
      | (None, tr) \<Rightarrow> (case b (last (disk # tr)) of (r, tr') \<Rightarrow> (r, tr @ tr')))"

definition raise :: "exn \<Rightarrow> io" where
  "raise e disk = (Some e, [])"

definition open_wb :: "refresh_env \<Rightarrow> path \<Rightarrow> io" where
  "open_wb env p disk =
     (if fault env (OpenWrite p) then (Some OSError, [])
      else (None, [disk(p \<mapsto> Raw [])]))"

text \<open>\<^verbatim>\<open>await f.write(await response.read())\<close>: one write of the whole body.\<close>

definition write_data :: "refresh_env \<Rightarrow> path \<Rightarrow> blob \<Rightarrow> io" where
  "write_data env p b disk =
     (if fault env (WriteData p) then (Some OSError, [])
      else (None, [disk(p \<mapsto> b)]))"

text \<open>
  \<^verbatim>\<open>copyfileobj\<close>, by which both \<^verbatim>\<open>tar.extract\<close> and \<^verbatim>\<open>shutil.copy2\<close> fill the
  file they have opened: the data is written piece by piece, and a copy that is
  interrupted leaves the bytes written so far.
\<close>

definition written_so_far :: "refresh_env \<Rightarrow> blob \<Rightarrow> blob" where
  "written_so_far env b =
     (case b of Raw bytes \<Rightarrow> Raw (take (copied env) bytes) | TarGz members \<Rightarrow> Raw (torn env))"

definition copyfileobj :: "refresh_env \<Rightarrow> path \<Rightarrow> blob \<Rightarrow> io" where
  "copyfileobj env p b disk =
     (if fault env (WriteData p) then (Some OSError, [disk(p \<mapsto> written_so_far env b)])
      else (None, [disk(p \<mapsto> b)]))"

definition copystat :: "refresh_env \<Rightarrow> io" where
  "copystat env disk = (if fault env CopyStat then (Some OSError, []) else (None, []))"

definition os_remove :: "refresh_env \<Rightarrow> path \<Rightarrow> io" where
  "os_remove env p disk =
     (if fault env (Unlink p) \<or> disk p = None then (Some OSError, [])
      else (None, [disk(p := None)]))"

text \<open>
  The file that a path name names on this machine, and
  \<^verbatim>\<open>temp_db = os.path.join('/tmp', mmdb_file.name)\<close>, which is also where
  \<^verbatim>\<open>tar.extract(mmdb_file, '/tmp')\<close> puts the member: no filter is applied to the
  name (Python up to 3.13), so a name that starts with a slash or goes up with
  \<^verbatim>\<open>..\<close> leads out of \<^verbatim>\<open>/tmp\<close>.
\<close>

definition file_at :: "refresh_env \<Rightarrow> string \<Rightarrow> path" where
  "file_at env s = locate (base_dir env) (resolve s)"

definition temp_db :: "refresh_env \<Rightarrow> tarinfo \<Rightarrow> path" where
  "temp_db env m = file_at env (os_path_join ''/tmp'' (name m))"

text \<open>
  \<^verbatim>\<open>shutil.copy2(src, dst)\<close>: \<^verbatim>\<open>copyfile\<close>, then \<^verbatim>\<open>copystat\<close>.  \<^verbatim>\<open>copyfile\<close> raises
  \<^verbatim>\<open>SameFileError\<close> when both names are names of one file and raises for a named
  pipe; \<open>refusal\<close> is what these checks raise, if anything.  It then opens the
  source for reading, which raises when no regular file is there, opens the
  destination for writing and copies.
\<close>

definition shutil_copy2 :: "refresh_env \<Rightarrow> exn option \<Rightarrow> path \<Rightarrow> path \<Rightarrow> io" where
  "shutil_copy2 env refusal src dst disk =
     (case refusal of
        Some e \<Rightarrow> (Some e, [])
      | None \<Rightarrow>
          (case disk src of
             None \<Rightarrow> (Some OSError, [])
           | Some b \<Rightarrow>
               and_then (open_wb env dst)
              (and_then (copyfileobj env dst b) (copystat env)) disk))"

text \<open>
  \<^verbatim>\<open>tar.extract(mmdb_file, '/tmp')\<close>.  A regular file is opened for writing and
  filled.  A directory is made, which changes no file; where a regular file is in
  the way the extraction raises.  A link or a special file replaces what is at the
  path, or the extraction raises.
\<close>

definition tar_extract :: "refresh_env \<Rightarrow> tarinfo \<Rightarrow> io" where
  "tar_extract env m disk =
     (case m of
        TarInfo member_name bytes \<Rightarrow>
          and_then (open_wb env (temp_db env m)) (copyfileobj env (temp_db env m) (Raw bytes)) disk
      | TarDir member_name \<Rightarrow>
          (if disk (temp_db env m) \<noteq> None \<or> fault env (OpenWrite (temp_db env m))
             then (Some OSError, [])
           else (None, []))
      | TarLink member_name \<Rightarrow>
          (case link_effect env of
             LinkFails \<Rightarrow> (Some OSError, [])
           | LinkRefused shown same \<Rightarrow> (None, [disk(temp_db env m := shown)])
           | LinkReadable b \<Rightarrow> (None, [disk(temp_db env m \<mapsto> b)])))"

text \<open>
  What the checks of \<^verbatim>\<open>copyfile(temp_db, DB_PATH)\<close> raise once the member is
  extracted.  A regular file extracted onto the database file itself is the same
  file.  A directory is not refused here: opening it for reading raises.
\<close>

definition copyfile_refusal :: "refresh_env \<Rightarrow> tarinfo \<Rightarrow> exn option" where
  "copyfile_refusal env m =
     (case m of
        TarInfo member_name bytes \<Rightarrow>
          (if temp_db env m = DB_PATH then Some SameFileError else None)
      | TarDir member_name \<Rightarrow> None
      | TarLink member_name \<Rightarrow>
          (case link_effect env of
             LinkFails \<Rightarrow> None
           | LinkRefused shown same \<Rightarrow> Some (if same then SameFileError else OSError)
           | LinkReadable b \<Rightarrow>
               (if temp_db env m = DB_PATH then Some SameFileError else None)))"

definition tarfile_open :: "fs \<Rightarrow> path \<Rightarrow> exn + tarinfo list" where
  "tarfile_open disk p =
     (case disk p of
        None \<Rightarrow> Inl OSError
      | Some (Raw bs) \<Rightarrow> Inl ReadError
      | Some (TarGz members) \<Rightarrow> Inr members)"

definition endswith :: "string \<Rightarrow> string \<Rightarrow> bool" where
  "endswith s suf =
     (length suf \<le> length s \<and> drop (length s - length suf) s = suf)"

definition truthy_key :: "string option \<Rightarrow> bool" where
  "truthy_key k = (case k of None \<Rightarrow> False | Some s \<Rightarrow> s \<noteq> [])"

section \<open>download_database\<close>

definition session_get :: "refresh_env \<Rightarrow> io" where
  "session_get env =
     (if fault env SessionGet then raise ClientError
      else if response_status env \<noteq> 200
        then raise (HTTPException (response_status env) (Text ''Failed to download database''))
      else (\<lambda>disk. (None, [])))"

definition response_read :: "refresh_env \<Rightarrow> io" where
  "response_read env = (if fault env ReadBody then raise ClientError else (\<lambda>disk. (None, [])))"

definition first_mmdb :: "tarinfo list \<Rightarrow> tarinfo option" where
  "first_mmdb members = find (\<lambda>m. endswith (name m) ''.mmdb'') members"

definition install_member :: "refresh_env \<Rightarrow> io" where
  "install_member env disk =
     (case tarfile_open disk db_archive of
        Inl e \<Rightarrow> (Some e, [])
      | Inr members \<Rightarrow>
          (case first_mmdb members of
             None \<Rightarrow> raise (ValueError ''No .mmdb file found in archive'') disk
           | Some mmdb_file \<Rightarrow>
               and_then (tar_extract env mmdb_file)
              (and_then (shutil_copy2 env (copyfile_refusal env mmdb_file)
                           (temp_db env mmdb_file) DB_PATH)
                        (os_remove env (temp_db env mmdb_file))) disk))"

definition download_body :: "refresh_env \<Rightarrow> io" where
  "download_body env =
     (if \<not> truthy_key (MAXMIND_LICENSE_KEY env)
        then raise (ValueError ''MaxMind license key not configured'')
      else
        and_then (session_get env)
       (and_then (open_wb env db_archive)
       (and_then (response_read env)
       (and_then (write_data env db_archive (response_body env))
                 (install_member env)))))"

text \<open>
  \<^verbatim>\<open>download_database\<close> returns its flag; the model returns with it what was logged
  and every state the disk went through, the initial one first.
\<close>

definition download_database :: "refresh_env \<Rightarrow> fs \<Rightarrow> bool \<times> log_entry list \<times> fs list" where
  "download_database env disk =
     (case download_body env disk of
        (None, tr) \<Rightarrow> (True, [LogInfo ''Successfully updated MaxMind database''], disk # tr)
      | (Some e, tr) \<Rightarrow> (False, [LogError e], disk # tr))"

section \<open>update_scheduler\<close>




section \<open>The lookup result\<close>

text \<open>
  The document \<^verbatim>\<open>lookup_ip\<close> returns is a Python dict of strings, numbers, booleans,
  \<^verbatim>\<open>None\<close>, dicts and lists.  A dict is an association list in insertion order.
  \<open>truthy\<close> is Python's truth value, which \<^verbatim>\<open>any(v.values())\<close> and the conditional
  expressions of the source test.  Of a float the source uses only its truth value.
\<close>

datatype jval =
    JNone
  | JBool bool
  | JInt int
  | JFloat real
  | JStr string
  | JList "jval list"
  | JDict "(string \<times> jval) list"

type_synonym doc = "(string \<times> jval) list"

fun truthy :: "jval \<Rightarrow> bool" where
  "truthy JNone = False"
| "truthy (JBool b) = b"
| "truthy (JInt i) = (i \<noteq> 0)"
| "truthy (JFloat r) = (r \<noteq> 0)"
| "truthy (JStr s) = (s \<noteq> [])"
| "truthy (JList xs) = (xs \<noteq> [])"
| "truthy (JDict d) = (d \<noteq> [])"

fun is_dict :: "jval \<Rightarrow> bool" where
  "is_dict (JDict d) = True"
| "is_dict v = False"

fun dict_values :: "jval \<Rightarrow> jval list" where
  "dict_values (JDict d) = map snd d"
| "dict_values v = []"

text \<open>What the database reader returns for an address: the records of geoip2's city model.\<close>

record location_rec =
  latitude :: "real option"
  longitude :: "real option"
  accuracy_radius :: "int option"
  time_zone :: "string option"

record city_rec =
  city_name :: "string option"
  city_geoname_id :: "int option"

record postal_rec =
  postal_code :: "string option"

record continent_rec =
  continent_code :: "string option"
  continent_geoname_id :: "int option"
  continent_name :: "string option"

record country_rec =
  iso_code :: "string option"
  geoname_id :: "int option"
  country_name :: "string option"
  is_in_european_union :: bool

record traits_rec =
  is_anonymous_proxy :: bool
  is_satellite_provider :: bool

record subdivision_rec =
  sub_iso_code :: "string option"
  sub_geoname_id :: "int option"
  sub_name :: "string option"

record city_response =
  location :: "location_rec option"
  city :: "city_rec option"
  postal :: "postal_rec option"
  continent :: "continent_rec option"
  country :: "country_rec option"
  registered_country :: "country_rec option"
  traits :: "traits_rec option"
  subdivisions :: "subdivision_rec list"

text \<open>
  \<^verbatim>\<open>float(r.f) if r and r.f else None\<close>, and the same with \<^verbatim>\<open>int\<close> and \<^verbatim>\<open>str\<close>: the
  value when the record and the field are truthy, \<^verbatim>\<open>None\<close> otherwise.
  \<^verbatim>\<open>bool(r.f) if r and hasattr(r, 'f') else None\<close> tests the record only.
\<close>

definition float_or_none :: "'r option \<Rightarrow> ('r \<Rightarrow> real option) \<Rightarrow> jval" where
  "float_or_none r f =
     (case r of None \<Rightarrow> JNone
      | Some x \<Rightarrow> (case f x of None \<Rightarrow> JNone
                   | Some v \<Rightarrow> if v \<noteq> 0 then JFloat v else JNone))"

definition int_or_none :: "'r option \<Rightarrow> ('r \<Rightarrow> int option) \<Rightarrow> jval" where
  "int_or_none r f =
     (case r of None \<Rightarrow> JNone
      | Some x \<Rightarrow> (case f x of None \<Rightarrow> JNone
                   | Some v \<Rightarrow> if v \<noteq> 0 then JInt v else JNone))"

definition str_or_none :: "'r option \<Rightarrow> ('r \<Rightarrow> string option) \<Rightarrow> jval" where
  "str_or_none r f =
     (case r of None \<Rightarrow> JNone
      | Some x \<Rightarrow> (case f x of None \<Rightarrow> JNone
                   | Some v \<Rightarrow> if v \<noteq> [] then JStr v else JNone))"

definition bool_or_none :: "'r option \<Rightarrow> ('r \<Rightarrow> bool) \<Rightarrow> jval" where
  "bool_or_none r f = (case r of None \<Rightarrow> JNone | Some x \<Rightarrow> JBool (f x))"

definition country_group :: "country_rec option \<Rightarrow> jval" where
  "country_group c =
     JDict [(''iso_code'', str_or_none c iso_code),
            (''geoname_id'', int_or_none c geoname_id),
            (''name'', str_or_none c country_name),
            (''is_in_european_union'', bool_or_none c is_in_european_union)]"

definition subdivision_entry :: "subdivision_rec \<Rightarrow> jval" where
  "subdivision_entry s =
     JDict [(''iso_code'', str_or_none (Some s) sub_iso_code),
            (''geoname_id'', int_or_none (Some s) sub_geoname_id),
            (''name'', str_or_none (Some s) sub_name)]"

definition build_result :: "city_response \<Rightarrow> string \<Rightarrow> doc" where
  "build_result response ip =
     [(''ip'', JStr ip),
      (''location'', JDict
         [(''latitude'', float_or_none (location response) latitude),
          (''longitude'', float_or_none (location response) longitude),
          (''accuracy_radius'', int_or_none (location response) accuracy_radius),
          (''time_zone'', str_or_none (location response) time_zone)]),
      (''city'', JDict
         [(''name'', str_or_none (city response) city_name),
          (''geoname_id'', int_or_none (city response) city_geoname_id)]),
      (''postal'', JDict
         [(''code'', str_or_none (postal response) postal_code)]),
      (''continent'', JDict
         [(''code'', str_or_none (continent response) continent_code),
          (''geoname_id'', int_or_none (continent response) continent_geoname_id),
          (''name'', str_or_none (continent response) continent_name)]),
      (''country'', country_group (country response)),
      (''registered_country'', country_group (registered_country response)),
      (''traits'', JDict
         [(''is_anonymous_proxy'', bool_or_none (traits response) is_anonymous_proxy),
          (''is_satellite_provider'', bool_or_none (traits response) is_satellite_provider)]),
      (''subdivisions'', JList (map subdivision_entry (subdivisions response)))]"

text \<open>
  The pruning pass, lines 194 to 199.  First the dict comprehension over the
  items of \<^verbatim>\<open>result\<close>; then the loop over its keys, which rewrites each dict in
  place without its \<^verbatim>\<open>None\<close> fields and deletes it when nothing is left.
\<close>

definition keep_item :: "string \<times> jval \<Rightarrow> bool" where
  "keep_item kv =
     (snd kv \<noteq> JNone \<and> (\<not> is_dict (snd kv) \<or> list_ex truthy (dict_values (snd kv))))"

definition not_none_field :: "string \<times> jval \<Rightarrow> bool" where
  "not_none_field kv = (snd kv \<noteq> JNone)"

fun prune_groups :: "doc \<Rightarrow> doc" where
  "prune_groups [] = []"
| "prune_groups ((k, JDict d) # rest) =
     (if filter not_none_field d = [] then prune_groups rest
      else (k, JDict (filter not_none_field d)) # prune_groups rest)"
| "prune_groups (kv # rest) = kv # prune_groups rest"

definition prune :: "doc \<Rightarrow> doc" where
  "prune result = prune_groups (filter keep_item result)"

section \<open>lookup_ip\<close>

text \<open>
  \<^verbatim>\<open>ipaddress.ip_address\<close> and \<^verbatim>\<open>geoip2.database.Reader\<close> are libraries: the lookup
  takes them from its environment.  \<open>ip_address env s\<close> holds when the parser
  accepts \<open>s\<close>; \<open>Reader env\<close> opens a database file, which may raise, and gives the
  \<^verbatim>\<open>city\<close> method, which may raise too.  The lookup returns, with its result, the
  calls it made to the reader.
\<close>

record lookup_env =
  ip_address :: "string \<Rightarrow> bool"
  Reader :: "blob \<Rightarrow> exn + (string \<Rightarrow> exn + city_response)"

datatype reader_event = ReaderCalled | CityCalled string

definition validate_ip :: "lookup_env \<Rightarrow> string \<Rightarrow> bool" where
  "validate_ip env ip = ip_address env ip"

definition lookup_body :: "lookup_env \<Rightarrow> fs \<Rightarrow> string \<Rightarrow> reader_event list \<times> (exn + doc)" where
  "lookup_body env disk ip =
     (if \<not> validate_ip env ip
        then ([], Inl (HTTPException 400 (Text ''Invalid IP address'')))
      else if \<not> os_path_exists disk DB_PATH
        then ([], Inl (HTTPException 503 (Text ''Database not available'')))
      else
        (case disk DB_PATH of
           None \<Rightarrow> ([ReaderCalled], Inl OSError)
         | Some file \<Rightarrow>
             (case Reader env file of
                Inl e \<Rightarrow> ([ReaderCalled], Inl e)
              | Inr reader_city \<Rightarrow>
                  (case reader_city ip of
                     Inl e \<Rightarrow> ([ReaderCalled, CityCalled ip], Inl e)
                   | Inr response \<Rightarrow>
                       ([ReaderCalled, CityCalled ip],
                        Inr (prune (build_result response ip)))))))"

definition lookup_ip :: "lookup_env \<Rightarrow> fs \<Rightarrow> string \<Rightarrow> reader_event list \<times> (exn + doc)" where
  "lookup_ip env disk ip =
     (case lookup_body env disk ip of
        (ev, Inl e) \<Rightarrow> (ev, Inl (HTTPException 400 (Str e)))
      | (ev, Inr result) \<Rightarrow> (ev, Inr result))"

section \<open>The HTTP surface\<close>

record request =
  req_path :: string
  headers :: "(string \<times> string) list"
  client_host :: string

datatype http_response =
    JSONResponse nat doc
  | FileResponse path string string
  | ErrorResponse nat detail

fun status_code :: "http_response \<Rightarrow> nat" where
  "status_code (JSONResponse st d) = st"
| "status_code (FileResponse p filename media_type) = 200"
| "status_code (ErrorResponse st d) = st"

text \<open>
  What the framework sends for what a handler returns or raises: a returned dict
  is a 200 JSON body, an \<^verbatim>\<open>HTTPException\<close> is a response with its status, anything
  else is a 500.
\<close>

fun send_doc :: "exn + doc \<Rightarrow> http_response" where
  "send_doc (Inr d) = JSONResponse 200 d"
| "send_doc (Inl (HTTPException st d)) = ErrorResponse st d"
| "send_doc (Inl e) = ErrorResponse 500 (Text ''Internal Server Error'')"

text \<open>
  \<^verbatim>\<open>request.headers.get(name)\<close>: the value of the first header of that name, the
  case of the letters of a header name making no difference.
\<close>

definition lower_char :: "char \<Rightarrow> char" where
  "lower_char c =
     (case map_of (zip ''ABCDEFGHIJKLMNOPQRSTUVWXYZ'' ''abcdefghijklmnopqrstuvwxyz'') c of
        None \<Rightarrow> c
      | Some l \<Rightarrow> l)"

definition lower :: "string \<Rightarrow> string" where
  "lower s = map lower_char s"

definition header_get :: "(string \<times> string) list \<Rightarrow> string \<Rightarrow> string option" where
  "header_get hs k = map_of (map (\<lambda>h. (lower (fst h), snd h)) hs) (lower k)"

definition lookup_client_ip :: "lookup_env \<Rightarrow> fs \<Rightarrow> request \<Rightarrow> reader_event list \<times> (exn + doc)" where
  "lookup_client_ip env disk req =
     (if truthy_key (header_get (headers req) ''X-Real-IP'')
        then lookup_ip env disk (the (header_get (headers req) ''X-Real-IP''))
      else if truthy_key (header_get (headers req) ''X-Forwarded-For'')
        then lookup_ip env disk (the (header_get (headers req) ''X-Forwarded-For''))
      else lookup_ip env disk (client_host req))"

definition download_database_archive :: "fs \<Rightarrow> http_response" where
  "download_database_archive disk =
     (if \<not> os_path_exists disk db_archive
        then ErrorResponse 404 (Text ''Database archive not found'')
      else FileResponse db_archive ''GeoLite2-City.tar.gz'' ''application/gzip'')"

text \<open>
  The three routes of \<^verbatim>\<open>main.py\<close>, in the order the decorators register them.  The
  router tries them in that order and the first whose path matches handles the
  request.  The path \<^verbatim>\<open>/{ip_address}\<close> matches a slash followed by one non-empty
  segment without a slash, and binds the segment.  The pages the framework serves
  on its own (\<^verbatim>\<open>/docs\<close>, \<^verbatim>\<open>/redoc\<close>, \<^verbatim>\<open>/openapi.json\<close>) and its redirection of a
  path with a trailing slash are not part of the model.
\<close>

datatype endpoint = Lookup_client_ip | Lookup_ip | Download_database_archive

datatype route_path = Exact string | OneSegment string

fun match_path :: "route_path \<Rightarrow> string \<Rightarrow> (string \<times> string) list option" where
  "match_path (Exact p) s = (if s = p then Some [] else None)"
| "match_path (OneSegment param) [] = None"
| "match_path (OneSegment param) (c # seg) =
     (if c = CHR ''/'' \<and> seg \<noteq> [] \<and> CHR ''/'' \<notin> set seg then Some [(param, seg)] else None)"

definition routes :: "(route_path \<times> endpoint) list" where
  "routes =
     [(Exact ''/'', Lookup_client_ip),
      (OneSegment ''ip_address'', Lookup_ip),
      (Exact ''/database'', Download_database_archive)]"

fun first_match :: "(route_path \<times> endpoint) list \<Rightarrow> string \<Rightarrow> (endpoint \<times> (string \<times> string) list) option" where
  "first_match [] s = None"
| "first_match ((p, h) # rest) s =
     (case match_path p s of
        Some params \<Rightarrow> Some (h, params)
      | None \<Rightarrow> first_match rest s)"

definition app_get :: "lookup_env \<Rightarrow> fs \<Rightarrow> request \<Rightarrow> reader_event list \<times> http_response" where
  "app_get env disk req =
     (case first_match routes (req_path req) of
        None \<Rightarrow> ([], ErrorResponse 404 (Text ''Not Found''))
      | Some (Lookup_client_ip, params) \<Rightarrow>
          (case lookup_client_ip env disk req of (ev, r) \<Rightarrow> (ev, send_doc r))
      | Some (Lookup_ip, params) \<Rightarrow>
          (case map_of params ''ip_address'' of
             None \<Rightarrow> ([], ErrorResponse 500 (Text ''Internal Server Error''))
           | Some ip \<Rightarrow> (case lookup_ip env disk ip of (ev, r) \<Rightarrow> (ev, send_doc r)))
      | Some (Download_database_archive, params) \<Rightarrow> ([], download_database_archive disk))"

section \<open>The parts of what download_database returns\<close>

definition refresh_ok :: "refresh_env \<Rightarrow> fs \<Rightarrow> bool" where
  "refresh_ok env disk = fst (download_database env disk)"

definition refresh_log :: "refresh_env \<Rightarrow> fs \<Rightarrow> log_entry list" where
  "refresh_log env disk = fst (snd (download_database env disk))"

definition refresh_trace :: "refresh_env \<Rightarrow> fs \<Rightarrow> fs list" where
  "refresh_trace env disk = snd (snd (download_database env disk))"

definition disk_after :: "refresh_env \<Rightarrow> fs \<Rightarrow> fs" where
  "disk_after env disk = last (refresh_trace env disk)"

section \<open>How far a refresh attempt gets\<close>




text \<open>
  \<open>selected env\<close>: the member that line 72 selects from the response body, when
  that is an archive with such a member.  \<open>isreg m\<close>: the member is a regular file.
  \<open>staged_apart env\<close>: the place where the selected member is extracted is not the
  database file itself.
\<close>

definition selected :: "refresh_env \<Rightarrow> tarinfo option" where
  "selected env =
     (case response_body env of Raw bytes \<Rightarrow> None | TarGz members \<Rightarrow> first_mmdb members)"




section \<open>Documents after pruning\<close>

text \<open>
  What the pruning pass establishes for each item it leaves: the value is not
  \<^verbatim>\<open>None\<close>, and a dict is not empty, has no \<^verbatim>\<open>None\<close> field and has a truthy field.
\<close>

definition clean_item :: "string \<times> jval \<Rightarrow> bool" where
  "clean_item kv =
     (case snd kv of
        JNone \<Rightarrow> False
      | JDict g \<Rightarrow> g \<noteq> [] \<and> list_all not_none_field g \<and> list_ex truthy (map snd g)
      | _ \<Rightarrow> True)"

definition clean_doc :: "doc \<Rightarrow> bool" where
  "clean_doc d = list_all clean_item d"

section \<open>Concrete environments\<close>

text \<open>
  The theorems below hold for every parser and every reader.  To run them on
  concrete requests, here is one environment: a parser that accepts the dotted
  quads of decimal octets (the IPv4 half of \<^verbatim>\<open>ipaddress.ip_address\<close>), and a
  reader that opens every plain file and knows one address.
\<close>

fun split_dots :: "string \<Rightarrow> string list" where
  "split_dots [] = [[]]"
| "split_dots (c # cs) =
     (if c = CHR ''.'' then [] # split_dots cs
      else (case split_dots cs of [] \<Rightarrow> [[c]] | part # parts \<Rightarrow> (c # part) # parts))"

definition digit_value :: "char \<Rightarrow> nat" where
  "digit_value c = length (takeWhile (\<lambda>d. d \<noteq> c) ''0123456789'')"

definition decimal_octet :: "string \<Rightarrow> bool" where
  "decimal_octet s =
     (s \<noteq> [] \<and> length s \<le> 3 \<and> list_all (\<lambda>c. digit_value c < 10) s
      \<and> (if length s = 1 then True else hd s \<noteq> CHR ''0'')
      \<and> foldl (\<lambda>n c. 10 * n + digit_value c) 0 s \<le> 255)"

definition dotted_quad :: "string \<Rightarrow> bool" where
  "dotted_quad s = (length (split_dots s) = 4 \<and> list_all decimal_octet (split_dots s))"

definition example_country :: country_rec where
  "example_country =
     \<lparr>iso_code = Some ''US'', geoname_id = Some 6252001,
      country_name = Some ''United States'', is_in_european_union = False\<rparr>"

definition example_response :: city_response where
  "example_response =
     \<lparr>location = Some \<lparr>latitude = Some 37, longitude = Some (- 97),
                        accuracy_radius = Some 1000, time_zone = Some ''America/Chicago''\<rparr>,
      city = Some \<lparr>city_name = None, city_geoname_id = None\<rparr>,
      postal = Some \<lparr>postal_code = None\<rparr>,
      continent = Some \<lparr>continent_code = Some ''NA'', continent_geoname_id = Some 6255149,
                         continent_name = Some ''North America''\<rparr>,
      country = Some example_country,
      registered_country = Some example_country,
      traits = Some \<lparr>is_anonymous_proxy = False, is_satellite_provider = False\<rparr>,
      subdivisions = []\<rparr>"

definition example_reader :: "blob \<Rightarrow> exn + (string \<Rightarrow> exn + city_response)" where
  "example_reader file =
     (case file of
        TarGz members \<Rightarrow> Inl (ReaderError ''InvalidDatabaseError'')
      | Raw bytes \<Rightarrow>
          Inr (\<lambda>ip. if ip = ''8.8.8.8'' then Inr example_response
                     else Inl (ReaderError ''AddressNotFoundError'')))"

definition example_lookup_env :: lookup_env where
  "example_lookup_env = \<lparr>ip_address = dotted_quad, Reader = example_reader\<rparr>"

definition regional_response :: city_response where
  "regional_response =
     example_response
       \<lparr>subdivisions :=
          [\<lparr>sub_iso_code = Some ''CA'', sub_geoname_id = None,
            sub_name = Some ''California''\<rparr>]\<rparr>"

definition regional_lookup_env :: lookup_env where
  "regional_lookup_env =
     \<lparr>ip_address = dotted_quad, Reader = (\<lambda>file. Inr (\<lambda>ip. Inr regional_response))\<rparr>"

definition example_result :: doc where
  "example_result =
     [(''ip'', JStr ''8.8.8.8''),
      (''location'', JDict
         [(''latitude'', JFloat 37), (''longitude'', JFloat (- 97)),
          (''accuracy_radius'', JInt 1000), (''time_zone'', JStr ''America/Chicago'')]),
      (''continent'', JDict
         [(''code'', JStr ''NA''), (''geoname_id'', JInt 6255149),
          (''name'', JStr ''North America'')]),
      (''country'', JDict
         [(''iso_code'', JStr ''US''), (''geoname_id'', JInt 6252001),
          (''name'', JStr ''United States''), (''is_in_european_union'', JBool False)]),
      (''registered_country'', JDict
         [(''iso_code'', JStr ''US''), (''geoname_id'', JInt 6252001),
          (''name'', JStr ''United States''), (''is_in_european_union'', JBool False)]),
      (''subdivisions'', JList [])]"

definition example_request :: "string \<Rightarrow> request" where
  "example_request p = \<lparr>req_path = p, headers = [], client_host = ''127.0.0.1''\<rparr>"

definition example_archive :: blob where
  "example_archive =
     TarGz [TarInfo ''GeoLite2-City_20240101/COPYRIGHT.txt'' ''(c) MaxMind'',
            TarInfo ''GeoLite2-City_20240101/GeoLite2-City.mmdb'' ''new database'']"

definition example_disk :: fs where
  "example_disk =
     [DB_PATH \<mapsto> Raw ''old database'',
      db_archive \<mapsto> TarGz [TarInfo ''GeoLite2-City_20231201/GeoLite2-City.mmdb'' ''old database'']]"

definition no_fault :: "io_point \<Rightarrow> bool" where
  "no_fault p = False"

definition example_refresh_env :: refresh_env where
  "example_refresh_env =
     \<lparr>MAXMIND_LICENSE_KEY = Some ''license'', response_status = 200,
      response_body = example_archive, fault = no_fault,
      base_dir = [''app''], copied = 0, torn = [], link_effect = LinkFails\<rparr>"

definition staged_db :: path where
  "staged_db =
     temp_db example_refresh_env
       (TarInfo ''GeoLite2-City_20240101/GeoLite2-City.mmdb'' ''new database'')"





definition copy_refused_env :: refresh_env where
  "copy_refused_env = example_refresh_env\<lparr>fault := (\<lambda>p. p = OpenWrite DB_PATH)\<rparr>"

definition copy_interrupted_env :: refresh_env where
  "copy_interrupted_env = example_refresh_env\<lparr>fault := (\<lambda>p. p = WriteData DB_PATH)\<rparr>"

definition copy_cut_short_env :: refresh_env where
  "copy_cut_short_env = copy_interrupted_env\<lparr>copied := 3\<rparr>"

definition metadata_refused_env :: refresh_env where
  "metadata_refused_env = example_refresh_env\<lparr>fault := (\<lambda>p. p = CopyStat)\<rparr>"

definition traversal_env :: refresh_env where
  "traversal_env =
     example_refresh_env
       \<lparr>response_body := TarGz [TarInfo ''../app/assets/GeoLite2-City.mmdb'' ''new database'']\<rparr>"

definition directory_env :: refresh_env where
  "directory_env =
     example_refresh_env\<lparr>response_body := TarGz [TarDir ''GeoLite2-City.mmdb'']\<rparr>"

section \<open>Facts about the paths and the steps\<close>

lemma DB_PATH_eq: "DB_PATH = InBase [''assets'', ''GeoLite2-City.mmdb'']"
  by (simp add: DB_PATH_def BASE_DIR_def resolve_def walk_def)

lemma db_archive_eq: "db_archive = InBase [''assets'', ''GeoLite2-City.tar.gz'']"
  by (simp add: db_archive_def BASE_DIR_def resolve_def walk_def)

lemma DB_PATH_neq_archive: "DB_PATH \<noteq> db_archive"
  by (simp add: DB_PATH_eq db_archive_eq)


subsection \<open>A member whose name ends in .mmdb is never staged at the archive path\<close>













subsection \<open>The steps after the archive is written\<close>

lemmas io_defs = and_then_def raise_def open_wb_def write_data_def copyfileobj_def
  copystat_def os_remove_def shutil_copy2_def tar_extract_def session_get_def
  response_read_def copyfile_refusal_def

lemmas refresh_parts = refresh_ok_def refresh_log_def refresh_trace_def disk_after_def
  download_database_def









subsection \<open>The whole body\<close>








subsection \<open>The scheduler\<close>




subsection \<open>The lookup reads the disk at the database path only\<close>


subsection \<open>What download_database returns, by how far the attempt gets\<close>



section \<open>Claims about the refresh\<close>

lemmas run_defs = refresh_parts io_defs download_body_def install_member_def tarfile_open_def
  temp_db_def file_at_def locate_def resolve_def walk_def os_path_join_def first_mmdb_def
  endswith_def written_so_far_def truthy_key_def DB_PATH_eq db_archive_eq
  example_refresh_env_def example_archive_def example_disk_def no_fault_def









text \<open>
  A member name that leads out of \<^verbatim>\<open>/tmp\<close> onto the database file: the extraction
  overwrites the database, \<^verbatim>\<open>copy2\<close> finds one file under both names, and the
  attempt fails with the database already replaced.  A directory whose name ends
  in \<^verbatim>\<open>.mmdb\<close> is selected like any member, and the copy fails.
\<close>

lemma traversal_overwrites_database:
  "temp_db traversal_env (TarInfo ''../app/assets/GeoLite2-City.mmdb'' ''new database'') = DB_PATH \<and>
   refresh_ok traversal_env example_disk = False \<and>
   refresh_log traversal_env example_disk = [LogError SameFileError] \<and>
   map (\<lambda>s. s DB_PATH) (refresh_trace traversal_env example_disk) =
     [Some (Raw ''old database''), Some (Raw ''old database''), Some (Raw ''old database''),
      Some (Raw []), Some (Raw ''new database'')]"
  by (simp add: run_defs traversal_env_def)

lemma directory_member_fails:
  "selected directory_env = Some (TarDir ''GeoLite2-City.mmdb'') \<and>
   refresh_ok directory_env example_disk = False \<and>
   refresh_log directory_env example_disk = [LogError OSError] \<and>
   map (\<lambda>s. s DB_PATH) (refresh_trace directory_env example_disk) =
     [Some (Raw ''old database''), Some (Raw ''old database''), Some (Raw ''old database'')]"
  by (simp add: run_defs directory_env_def selected_def)











text \<open>When the copy is interrupted after three bytes, the three bytes are what is left.\<close>

lemma copy_cut_short_leaves_prefix:
  "refresh_ok copy_cut_short_env example_disk = False \<and>
   refresh_log copy_cut_short_env example_disk = [LogError OSError] \<and>
   disk_after copy_cut_short_env example_disk DB_PATH = Some (Raw ''new'')"
  by (simp add: run_defs copy_cut_short_env_def copy_interrupted_env_def)



text \<open>
  The copy has written the new database in full when copying its metadata fails:
  the attempt fails with the new database installed and the staged file left.
\<close>

lemma metadata_failure_after_install:
  "refresh_ok metadata_refused_env example_disk = False \<and>
   refresh_log metadata_refused_env example_disk = [LogError OSError] \<and>
   disk_after metadata_refused_env example_disk DB_PATH = Some (Raw ''new database'') \<and>
   disk_after metadata_refused_env example_disk staged_db = Some (Raw ''new database'')"
  by (simp add: run_defs metadata_refused_env_def staged_db_def)

text \<open>
  C9.  The claim: whether a refresh attempt succeeds or fails, the staged database
  member is removed by the end of the attempt.  The code removes it on the path
  that succeeds only: when the copy onto the canonical path is refused, the
  attempt fails and the extracted member stays below \<^verbatim>\<open>/tmp\<close>.
\<close>

theorem C9_staged_file_left_behind:
  "refresh_ok copy_refused_env example_disk = False \<and>
   refresh_log copy_refused_env example_disk = [LogError OSError] \<and>
   example_disk staged_db = None \<and>
   disk_after copy_refused_env example_disk staged_db = Some (Raw ''new database'') \<and>
   disk_after example_refresh_env example_disk staged_db = None"
  by (simp add: run_defs copy_refused_env_def staged_db_def)

section \<open>The pruning pass\<close>

lemma truthy_survives:
  "list_ex truthy (map snd g) \<Longrightarrow> list_ex truthy (map snd (filter not_none_field g))"
  by (induction g) (auto simp: not_none_field_def)

lemma truthy_nonempty: "list_ex truthy (map snd g) \<Longrightarrow> filter not_none_field g \<noteq> []"
  by (induction g) (auto simp: not_none_field_def)

lemma filter_all_id: "list_all P xs \<Longrightarrow> filter P xs = xs"
  by (induction xs) auto

lemma list_all_filter_same: "list_all P (filter P xs)"
  by (induction xs) auto

lemma clean_prune_groups: "list_all keep_item d \<Longrightarrow> clean_doc (prune_groups d)"
proof (induction d rule: prune_groups.induct)
  case 1
  show ?case by (simp add: clean_doc_def)
next
  case (2 k g rest)
  from "2.prems" have first: "keep_item (k, JDict g)" and keep: "list_all keep_item rest"
    by simp_all
  from first have ex: "list_ex truthy (map snd g)"
    by (simp add: keep_item_def)
  from "2.IH" keep have rest: "clean_doc (prune_groups rest)"
    by (cases "filter not_none_field g = []") simp_all
  from ex have ne: "filter not_none_field g \<noteq> []" by (rule truthy_nonempty)
  from ex have "clean_item (k, JDict (filter not_none_field g))"
    by (simp add: clean_item_def ne list_all_filter_same truthy_survives)
  with rest ne show ?case by (simp add: clean_doc_def)
qed (simp_all add: clean_doc_def clean_item_def keep_item_def)

lemma clean_prune: "clean_doc (prune d)"
  unfolding prune_def by (rule clean_prune_groups) (rule list_all_filter_same)

lemma clean_keep: "clean_item kv \<Longrightarrow> keep_item kv"
  by (cases kv, cases "snd kv") (simp_all add: clean_item_def keep_item_def)

lemma prune_groups_clean_id: "clean_doc d \<Longrightarrow> prune_groups d = d"
proof (induction d rule: prune_groups.induct)
  case 1
  show ?case by simp
next
  case (2 k g rest)
  then show ?case by (simp add: clean_doc_def clean_item_def filter_all_id)
qed (simp_all add: clean_doc_def)

lemma prune_clean_id: "clean_doc d \<Longrightarrow> prune d = d"
proof -
  assume c: "clean_doc d"
  then have "list_all keep_item d"
    by (simp add: clean_doc_def list_all_iff clean_keep)
  then have "filter keep_item d = d" by (rule filter_all_id)
  with c show ?thesis by (simp add: prune_def prune_groups_clean_id)
qed

lemma prune_idem: "prune (prune d) = prune d"
  by (rule prune_clean_id) (rule clean_prune)

lemma clean_doc_value: "clean_doc d \<Longrightarrow> (k, v) \<in> set d \<Longrightarrow> v \<noteq> JNone"
  by (auto simp: clean_doc_def clean_item_def list_all_iff)

lemma clean_doc_group:
  "clean_doc d \<Longrightarrow> (k, JDict g) \<in> set d \<Longrightarrow> g \<noteq> [] \<and> (\<forall>f v. (f, v) \<in> set g \<longrightarrow> v \<noteq> JNone)"
proof -
  assume "clean_doc d" and "(k, JDict g) \<in> set d"
  then have "clean_item (k, JDict g)" by (auto simp: clean_doc_def list_all_iff)
  then show ?thesis by (auto simp: clean_item_def list_all_iff not_none_field_def)
qed

text \<open>A value that is neither \<^verbatim>\<open>None\<close> nor a dict stays where it is.\<close>

lemma map_of_filter_keep:
  "map_of d k = Some v \<Longrightarrow> v \<noteq> JNone \<Longrightarrow> \<not> is_dict v \<Longrightarrow>
   map_of (filter keep_item d) k = Some v"
  by (induction d) (auto simp: keep_item_def split: if_splits)

lemma map_of_prune_groups:
  "map_of d k = Some v \<Longrightarrow> \<not> is_dict v \<Longrightarrow> map_of (prune_groups d) k = Some v"
  by (induction d rule: prune_groups.induct) (auto split: if_splits)

lemma map_of_prune:
  "map_of d k = Some v \<Longrightarrow> v \<noteq> JNone \<Longrightarrow> \<not> is_dict v \<Longrightarrow> map_of (prune d) k = Some v"
  by (simp add: prune_def map_of_prune_groups map_of_filter_keep)

lemma keys_prune_groups: "set (map fst (prune_groups d)) \<subseteq> set (map fst d)"
  by (induction d rule: prune_groups.induct) auto

lemma key_stays_absent: "k \<notin> fst ` set d \<Longrightarrow> k \<notin> fst ` set (prune_groups d)"
  using keys_prune_groups [of d] by auto

lemma distinct_prune_groups: "distinct (map fst d) \<Longrightarrow> distinct (map fst (prune_groups d))"
  by (induction d rule: prune_groups.induct) (auto simp: key_stays_absent)

lemma distinct_prune: "distinct (map fst d) \<Longrightarrow> distinct (map fst (prune d))"
  unfolding prune_def by (rule distinct_prune_groups) (simp add: distinct_map_filter)

section \<open>What a lookup returns\<close>

lemma lookup_success:
  "snd (lookup_ip env disk ip) = Inr result \<Longrightarrow>
   \<exists>response. result = prune (build_result response ip)"
  by (auto simp: lookup_ip_def lookup_body_def split: if_splits option.splits sum.splits)

lemma lookup_success_record:
  "snd (lookup_ip env disk ip) = Inr result \<Longrightarrow>
   \<exists>file reader_city response.
     disk DB_PATH = Some file \<and> Reader env file = Inr reader_city \<and>
     reader_city ip = Inr response \<and> result = prune (build_result response ip)"
  by (auto simp: lookup_ip_def lookup_body_def split: if_splits option.splits sum.splits)

lemma lookup_found:
  "validate_ip env ip \<Longrightarrow> disk DB_PATH = Some file \<Longrightarrow> Reader env file = Inr reader_city \<Longrightarrow>
   reader_city ip = Inr response \<Longrightarrow>
   lookup_ip env disk ip =
     ([ReaderCalled, CityCalled ip], Inr (prune (build_result response ip)))"
  by (simp add: lookup_ip_def lookup_body_def os_path_exists_def)

lemma build_result_ip: "map_of (build_result response ip) ''ip'' = Some (JStr ip)"
  by (simp add: build_result_def)

lemma build_result_subdivisions:
  "map_of (build_result response ip) ''subdivisions'' =
     Some (JList (map subdivision_entry (subdivisions response)))"
  by (simp add: build_result_def)

lemma build_result_keys: "distinct (map fst (build_result response ip))"
  by (simp add: build_result_def)

lemma lookup_invalid:
  "\<not> validate_ip env ip \<Longrightarrow>
   lookup_ip env disk ip =
     ([], Inl (HTTPException 400 (Str (HTTPException 400 (Text ''Invalid IP address'')))))"
  by (simp add: lookup_ip_def lookup_body_def)

lemma lookup_no_database:
  "validate_ip env ip \<Longrightarrow> \<not> os_path_exists disk DB_PATH \<Longrightarrow>
   lookup_ip env disk ip =
     ([], Inl (HTTPException 400 (Str (HTTPException 503 (Text ''Database not available'')))))"
  by (simp add: lookup_ip_def lookup_body_def)

lemma example_valid: "validate_ip example_lookup_env ''8.8.8.8''"
  by (simp add: validate_ip_def example_lookup_env_def dotted_quad_def decimal_octet_def
      digit_value_def)

lemma example_invalid: "\<not> validate_ip example_lookup_env ''not-an-ip''"
  by (simp add: validate_ip_def example_lookup_env_def dotted_quad_def decimal_octet_def
      digit_value_def)

lemma database_invalid: "\<not> validate_ip example_lookup_env ''database''"
  by (simp add: validate_ip_def example_lookup_env_def dotted_quad_def decimal_octet_def
      digit_value_def)

lemma example_lookup:
  "lookup_ip example_lookup_env example_disk ''8.8.8.8'' =
     ([ReaderCalled, CityCalled ''8.8.8.8''], Inr example_result)"
  using example_valid
  by (simp add: lookup_ip_def lookup_body_def os_path_exists_def example_lookup_env_def
      example_disk_def DB_PATH_neq_archive example_reader_def build_result_def
      example_response_def example_country_def example_result_def prune_def keep_item_def
      not_none_field_def float_or_none_def int_or_none_def str_or_none_def bool_or_none_def
      country_group_def)

section \<open>Claims about the lookup\<close>

text \<open>
  C8.  For every address string that does not parse as an IPv4 or IPv6 address,
  the lookup fails with the error \<^verbatim>\<open>Invalid IP address\<close>, which the caller receives
  as status 400, and the database reader is neither opened nor queried.
\<close>

theorem C8_invalid_address_rejected:
  "\<not> validate_ip env ip \<Longrightarrow>
     fst (lookup_ip env disk ip) = [] \<and>
     snd (lookup_ip env disk ip) =
       Inl (HTTPException 400 (Str (HTTPException 400 (Text ''Invalid IP address'')))) \<and>
     status_code (send_doc (snd (lookup_ip env disk ip))) = 400"
  by (simp add: lookup_invalid)

theorem C8_invalid_address_rejected_witness:
  "\<not> validate_ip example_lookup_env ''not-an-ip'' \<and>
   fst (lookup_ip example_lookup_env example_disk ''not-an-ip'') = [] \<and>
   snd (lookup_ip example_lookup_env example_disk ''not-an-ip'') =
     Inl (HTTPException 400 (Str (HTTPException 400 (Text ''Invalid IP address'')))) \<and>
   status_code (send_doc (snd (lookup_ip example_lookup_env example_disk ''not-an-ip''))) = 400"
  using C8_invalid_address_rejected [OF example_invalid, of example_disk] example_invalid
  by simp

text \<open>
  C10.  For every successful lookup the returned document has the key \<^verbatim>\<open>ip\<close>,
  once, and its value is the address string that was queried; the pruning pass
  keeps an \<^verbatim>\<open>ip\<close> entry of any document it is applied to.
\<close>

theorem C10_ip_key_kept:
  "(snd (lookup_ip env disk ip) = Inr result \<longrightarrow>
      map_of result ''ip'' = Some (JStr ip) \<and> distinct (map fst result))
   \<and> (map_of d ''ip'' = Some (JStr s) \<longrightarrow> map_of (prune d) ''ip'' = Some (JStr s))"
proof (intro conjI impI)
  assume "snd (lookup_ip env disk ip) = Inr result"
  then obtain response where r: "result = prune (build_result response ip)"
    using lookup_success by blast
  show "map_of result ''ip'' = Some (JStr ip)"
    unfolding r by (rule map_of_prune) (simp_all add: build_result_ip)
  show "distinct (map fst result)"
    unfolding r by (rule distinct_prune) (rule build_result_keys)
next
  assume "map_of d ''ip'' = Some (JStr s)"
  then show "map_of (prune d) ''ip'' = Some (JStr s)"
    by (rule map_of_prune) simp_all
qed

theorem C10_ip_key_kept_witness:
  "snd (lookup_ip example_lookup_env example_disk ''8.8.8.8'') = Inr example_result \<and>
   map_of example_result ''ip'' = Some (JStr ''8.8.8.8'') \<and>
   distinct (map fst example_result) \<and>
   map_of [(''ip'', JStr ''8.8.8.8''), (''postal'', JDict [(''code'', JNone)])] ''ip'' =
     Some (JStr ''8.8.8.8'') \<and>
   map_of (prune [(''ip'', JStr ''8.8.8.8''), (''postal'', JDict [(''code'', JNone)])]) ''ip'' =
     Some (JStr ''8.8.8.8'')"
proof -
  have d: "map_of [(''ip'', JStr ''8.8.8.8''), (''postal'', JDict [(''code'', JNone)])] ''ip'' =
     Some (JStr ''8.8.8.8'')"
    by simp
  from C10_ip_key_kept [of example_lookup_env example_disk "''8.8.8.8''" example_result
      "[(''ip'', JStr ''8.8.8.8''), (''postal'', JDict [(''code'', JNone)])]" "''8.8.8.8''"]
    example_lookup d
  show ?thesis by simp
qed

text \<open>
  C6.  The claim: the pruning pass is idempotent, and the document of a
  successful lookup has no key whose value is absent, no group all of whose fields
  are absent, and no empty subdivisions sequence.

  The pass removes \<^verbatim>\<open>None\<close> values and dicts; a list is neither.  For an address
  whose record has no subdivisions the document holds \<^verbatim>\<open>'subdivisions': []\<close>.
\<close>

theorem C6_empty_subdivisions_kept:
  "snd (lookup_ip example_lookup_env example_disk ''8.8.8.8'') =
     Inr [(''ip'', JStr ''8.8.8.8''),
          (''location'', JDict
             [(''latitude'', JFloat 37), (''longitude'', JFloat (- 97)),
              (''accuracy_radius'', JInt 1000), (''time_zone'', JStr ''America/Chicago'')]),
          (''continent'', JDict
             [(''code'', JStr ''NA''), (''geoname_id'', JInt 6255149),
              (''name'', JStr ''North America'')]),
          (''country'', JDict
             [(''iso_code'', JStr ''US''), (''geoname_id'', JInt 6252001),
              (''name'', JStr ''United States''), (''is_in_european_union'', JBool False)]),
          (''registered_country'', JDict
             [(''iso_code'', JStr ''US''), (''geoname_id'', JInt 6252001),
              (''name'', JStr ''United States''), (''is_in_european_union'', JBool False)]),
          (''subdivisions'', JList [])]"
  using example_lookup by (simp add: example_result_def)

text \<open>
  C6, as amended.  The pruning pass is idempotent.  In the document of every
  successful lookup no top-level key has the value \<^verbatim>\<open>None\<close>, and every group is
  non-empty and has no field whose value is \<^verbatim>\<open>None\<close>.  The key \<^verbatim>\<open>subdivisions\<close> is
  always there: its value is the list of the subdivisions of the record that the
  reader returned for the address, one entry for each, empty when the record has
  none, and its entries are not pruned: a field without a value stays as \<^verbatim>\<open>None\<close>.
\<close>

theorem C6_pruning:
  "prune (prune d) = prune d
   \<and> (snd (lookup_ip env disk ip) = Inr result \<longrightarrow>
        (\<forall>k v. (k, v) \<in> set result \<longrightarrow> v \<noteq> JNone)
      \<and> (\<forall>k g. (k, JDict g) \<in> set result \<longrightarrow>
            g \<noteq> [] \<and> (\<forall>f v. (f, v) \<in> set g \<longrightarrow> v \<noteq> JNone))
      \<and> (\<exists>file reader_city response.
            disk DB_PATH = Some file \<and> Reader env file = Inr reader_city \<and>
            reader_city ip = Inr response \<and>
            result = prune (build_result response ip) \<and>
            map_of result ''subdivisions'' =
              Some (JList (map subdivision_entry (subdivisions response)))))
   \<and> (validate_ip env ip \<and> disk DB_PATH = Some file \<and> Reader env file = Inr reader_city
        \<and> reader_city ip = Inr response \<longrightarrow>
        (\<exists>result. snd (lookup_ip env disk ip) = Inr result \<and>
           map_of result ''subdivisions'' =
             Some (JList (map (\<lambda>s. JDict [(''iso_code'', str_or_none (Some s) sub_iso_code),
                                          (''geoname_id'', int_or_none (Some s) sub_geoname_id),
                                          (''name'', str_or_none (Some s) sub_name)])
                            (subdivisions response)))))"
proof (intro conjI impI)
  show "prune (prune d) = prune d" by (rule prune_idem)
next
  assume ok: "snd (lookup_ip env disk ip) = Inr result"
  then obtain db reader_city response where rec: "disk DB_PATH = Some db"
    "Reader env db = Inr reader_city" "reader_city ip = Inr response"
    and r: "result = prune (build_result response ip)"
    using lookup_success_record by blast
  then have c: "clean_doc result" by (simp add: clean_prune)
  show "\<forall>k v. (k, v) \<in> set result \<longrightarrow> v \<noteq> JNone"
    using clean_doc_value [OF c] by blast
  show "\<forall>k g. (k, JDict g) \<in> set result \<longrightarrow>
            g \<noteq> [] \<and> (\<forall>f v. (f, v) \<in> set g \<longrightarrow> v \<noteq> JNone)"
    using clean_doc_group [OF c] by blast
  have "map_of result ''subdivisions'' =
          Some (JList (map subdivision_entry (subdivisions response)))"
    unfolding r by (rule map_of_prune) (simp_all add: build_result_subdivisions)
  with rec r show "\<exists>file reader_city response.
            disk DB_PATH = Some file \<and> Reader env file = Inr reader_city \<and>
            reader_city ip = Inr response \<and>
            result = prune (build_result response ip) \<and>
            map_of result ''subdivisions'' =
              Some (JList (map subdivision_entry (subdivisions response)))"
    by blast
next
  assume h: "validate_ip env ip \<and> disk DB_PATH = Some file \<and> Reader env file = Inr reader_city
        \<and> reader_city ip = Inr response"
  then have "snd (lookup_ip env disk ip) = Inr (prune (build_result response ip))"
    by (simp add: lookup_found)
  moreover have "map_of (prune (build_result response ip)) ''subdivisions'' =
          Some (JList (map subdivision_entry (subdivisions response)))"
    by (rule map_of_prune) (simp_all add: build_result_subdivisions)
  moreover have "subdivision_entry =
      (\<lambda>s. JDict [(''iso_code'', str_or_none (Some s) sub_iso_code),
                   (''geoname_id'', int_or_none (Some s) sub_geoname_id),
                   (''name'', str_or_none (Some s) sub_name)])"
    by (rule ext) (simp add: subdivision_entry_def)
  ultimately show "\<exists>result. snd (lookup_ip env disk ip) = Inr result \<and>
           map_of result ''subdivisions'' =
             Some (JList (map (\<lambda>s. JDict [(''iso_code'', str_or_none (Some s) sub_iso_code),
                                          (''geoname_id'', int_or_none (Some s) sub_geoname_id),
                                          (''name'', str_or_none (Some s) sub_name)])
                            (subdivisions response)))"
    by simp
qed

lemma regional_valid: "validate_ip regional_lookup_env ''8.8.4.4''"
  by (simp add: validate_ip_def regional_lookup_env_def dotted_quad_def decimal_octet_def
      digit_value_def)

theorem C6_pruning_witness:
  "snd (lookup_ip example_lookup_env example_disk ''8.8.8.8'') = Inr example_result \<and>
   prune (prune example_result) = prune example_result \<and>
   map_of example_result ''subdivisions'' = Some (JList []) \<and>
   validate_ip regional_lookup_env ''8.8.4.4'' \<and>
   example_disk DB_PATH = Some (Raw ''old database'') \<and>
   (\<exists>result. snd (lookup_ip regional_lookup_env example_disk ''8.8.4.4'') = Inr result \<and>
      map_of result ''subdivisions'' =
        Some (JList [JDict [(''iso_code'', JStr ''CA''), (''geoname_id'', JNone),
                            (''name'', JStr ''California'')]]))"
proof -
  have db: "example_disk DB_PATH = Some (Raw ''old database'')"
    by (simp add: example_disk_def DB_PATH_neq_archive)
  have rd: "Reader regional_lookup_env (Raw ''old database'') = Inr (\<lambda>ip. Inr regional_response)"
    by (simp add: regional_lookup_env_def)
  from C6_pruning [of example_result regional_lookup_env example_disk "''8.8.4.4''" _
      "Raw ''old database''" "\<lambda>ip. Inr regional_response" regional_response]
    regional_valid db rd
  have regional: "\<exists>result. snd (lookup_ip regional_lookup_env example_disk ''8.8.4.4'') = Inr result \<and>
      map_of result ''subdivisions'' =
        Some (JList (map (\<lambda>s. JDict [(''iso_code'', str_or_none (Some s) sub_iso_code),
                                     (''geoname_id'', int_or_none (Some s) sub_geoname_id),
                                     (''name'', str_or_none (Some s) sub_name)])
                       (subdivisions regional_response)))"
    by blast
  have idem: "prune (prune example_result) = prune example_result"
    using C6_pruning [of example_result] by blast
  have sub: "map_of example_result ''subdivisions'' = Some (JList [])"
    by (simp add: example_result_def)
  from regional idem sub regional_valid db example_lookup show ?thesis
    by (simp add: regional_response_def str_or_none_def int_or_none_def)
qed

text \<open>
  C2.  The claim: for a valid address, when no database file exists, the lookup
  fails with status 503.  The code raises the 503 inside its own
  \<^verbatim>\<open>try: ... except Exception\<close>, which catches it and raises a 400 whose detail is
  the text of the 503.
\<close>

theorem C2_unavailable_answered_400:
  "fst (lookup_ip example_lookup_env Map.empty ''8.8.8.8'') = [] \<and>
   snd (lookup_ip example_lookup_env Map.empty ''8.8.8.8'') =
     Inl (HTTPException 400 (Str (HTTPException 503 (Text ''Database not available'')))) \<and>
   status_code (send_doc (snd (lookup_ip example_lookup_env Map.empty ''8.8.8.8''))) = 400"
  using lookup_no_database [OF example_valid, of Map.empty]
  by (simp add: os_path_exists_def)

text \<open>
  C1.  The claim: a GET of \<^verbatim>\<open>/database\<close> streams the archive, or is answered 404
  when there is none, and the segment \<^verbatim>\<open>database\<close> is never looked up as an
  address.  The route \<^verbatim>\<open>/{ip_address}\<close> is registered before \<^verbatim>\<open>/database\<close> and
  matches it, so the request is handled by \<^verbatim>\<open>lookup_ip\<close> with the address
  \<^verbatim>\<open>database\<close> and answered 400, with or without an archive on disk.  The handler
  of \<^verbatim>\<open>/database\<close> does what the claim says and is never reached.
\<close>

theorem C1_database_route_shadowed:
  "first_match routes ''/database'' = Some (Lookup_ip, [(''ip_address'', ''database'')]) \<and>
   app_get example_lookup_env example_disk (example_request ''/database'') =
     ([], ErrorResponse 400 (Str (HTTPException 400 (Text ''Invalid IP address'')))) \<and>
   app_get example_lookup_env Map.empty (example_request ''/database'') =
     ([], ErrorResponse 400 (Str (HTTPException 400 (Text ''Invalid IP address'')))) \<and>
   download_database_archive example_disk =
     FileResponse db_archive ''GeoLite2-City.tar.gz'' ''application/gzip'' \<and>
   download_database_archive Map.empty =
     ErrorResponse 404 (Text ''Database archive not found'')"
  using lookup_invalid [OF database_invalid]
  by (simp add: routes_def app_get_def example_request_def download_database_archive_def
      os_path_exists_def example_disk_def)

lemma database_route_unreachable:
  "first_match routes p \<noteq> Some (Download_database_archive, params)"
  by (cases p) (auto simp: routes_def split: if_splits)

end
